theory Spec2Isabelle
  imports Complex_Main "HOL-Library.Sublist"
begin

section \<open>Strings of the runtime\<close>

text \<open>
  Text is a list of bytes, the UTF-8 form of the source file and of the HTTP bodies.
  \<open>toLowerCase\<close> maps the ASCII capitals to small letters and leaves every other
  byte as it is; \<open>str_includes s sub\<close> is \<open>s.includes(sub)\<close>, a search from
  position 0 onwards; \<open>startsWith s p\<close> is \<open>s.startsWith(p)\<close>.
\<close>

definition lower_char :: "char \<Rightarrow> char" where
  "lower_char c =
     (let n = (of_char c :: nat) in if 65 \<le> n \<and> n \<le> 90 then char_of (n + 32) else c)"

definition toLowerCase :: "string \<Rightarrow> string" where
  "toLowerCase s = map lower_char s"

fun str_includes :: "string \<Rightarrow> string \<Rightarrow> bool" where
  "str_includes [] sub = (sub = [])"
| "str_includes (c # cs) sub = (prefix sub (c # cs) \<or> str_includes cs sub)"

definition startsWith :: "string \<Rightarrow> string \<Rightarrow> bool" where
  "startsWith s p = (take (length p) s = p)"

text \<open>\<open>path.basename\<close> on a POSIX path: the last segment, trailing slashes dropped.\<close>

definition path_basename :: "string \<Rightarrow> string" where
  "path_basename p =
     rev (takeWhile (\<lambda>c. c \<noteq> CHR ''/'') (dropWhile (\<lambda>c. c = CHR ''/'') (rev p)))"

text \<open>Decimal notation of a number, as a template literal prints it.\<close>

fun decimal :: "nat \<Rightarrow> string" where
  "decimal n =
     (if n < 10 then [char_of (48 + n)] else decimal (n div 10) @ [char_of (48 + n mod 10)])"

section \<open>Data of a request\<close>

text \<open>A thrown value: an error object with its constructor's name and its message.\<close>

datatype js_error = JsError (error_name: string) (message: string)

text \<open>
  A file part of the multipart body, with the field it was sent under, and
  \<open>req.file\<close>, the same with the path of the staged copy.
\<close>

record file_part =
  fieldname :: string
  originalname :: string
  mimetype :: string
  size_bytes :: nat

record multer_file = file_part +
  path :: string

text \<open>
  What content negotiation on the \<open>Accept\<close> header of the request chooses between
  plain text and HTML (\<open>res.format\<close>).
\<close>

datatype negotiated = Text | Html | Neither

text \<open>
  A request to the route: its URL, the negotiated format, and the file parts of its body
  in the order they arrive (none when the body is not multipart).
\<close>

record request =
  url :: string
  accepts :: negotiated
  files :: "file_part list"

text \<open>The handle that the remote file store returns (\<open>uploadResult.file\<close>).\<close>

record remote_file =
  displayName :: string
  name :: string
  mimeType :: string
  uri :: string

record generation_config =
  temperature :: rat
  topP :: rat
  topK :: nat
  maxOutputTokens :: nat
  responseMimeType :: string

datatype part = FileData (part_mimeType: string) (fileUri: string)

record content =
  role :: string
  parts :: "part list"

text \<open>
  What is sent back: \<open>res.status(n).send(body)\<close> (\<open>res.send\<close> alone has status 200),
  \<open>res.redirect(target)\<close>, to which the handler gives no body, and the answer of the
  framework's built-in error handler to an error that no handler of the application took.
\<close>

datatype response =
    Send nat string
  | Redirect string
  | FinalHandler js_error

text \<open>
  The effects of a request, in the order they happen: log lines, the call of the
  validation callback on the incoming file, the write of the staged copy, the removal of
  a staged copy by the multipart layer after an error of its own, the call of the remote
  file store (path, MIME type, display name), the call of \<open>fs.unlink\<close> on a path with
  its outcome, the creation of a chat session, the message sent to it, the response.
\<close>

datatype event =
    ConsoleLog string
  | ConsoleError string js_error
  | FilterCall file_part
  | WriteTemp string
  | RemoveTemp string
  | UploadFile string string string
  | Unlink string "js_error option"
  | StartChat generation_config "content list"
  | SendMessage string
  | Respond response

text \<open>
  What lies outside the program and decides a run: the path that the multipart layer
  gives the staged file inside \<open>os.tmpdir()\<close>, and the outcome of each outside call
  should the run reach it: \<open>fileManager.uploadFile\<close>, \<open>fs.unlink\<close>,
  \<open>model.startChat\<close>, and \<open>chatSession.sendMessage\<close> followed by the reading of
  \<open>result.response.text()\<close>. \<open>Inl\<close> and \<open>Some\<close> carry the error thrown.
\<close>

record world =
  staged_path :: string
  uploadFile_result :: "js_error + remote_file"
  unlink_result :: "js_error option"
  startChat_result :: "js_error option"
  sendMessage_result :: "js_error + string"

section \<open>Upload intake\<close>

text \<open>
  The validation callback: \<open>None\<close> is \<open>cb(null, true)\<close>, \<open>Some e\<close> is
  \<open>cb(e, false)\<close>.
\<close>

definition fileFilter :: "file_part \<Rightarrow> js_error option" where
  "fileFilter file =
     (if startsWith (mimetype file) ''image/'' then None
      else Some (JsError ''Error'' ''Only image files are allowed!''))"

definition fileSize :: nat where
  "fileSize = 5 * 1024 * 1024"

text \<open>
  Modelled from the spec: the size check of the multipart library, which is a dependency
  and not part of the sources. The source gives it the limit \<open>fileSize\<close>; that a file
  is refused exactly when it exceeds the limit follows the specification's words
  (``the file must not exceed 5,242,880 bytes'').
\<close>

definition exceeds_limit :: "file_part \<Rightarrow> bool" where
  "exceeds_limit file = (fileSize < size_bytes file)"

text \<open>After an error the multipart layer removes what it has staged so far.\<close>

fun remove_uploaded :: "multer_file option \<Rightarrow> event list" where
  "remove_uploaded None = []"
| "remove_uploaded (Some f) = [RemoveTemp (path f)]"

text \<open>
  The multipart middleware on the file parts that are still to come: \<open>left\<close> is the
  number of files that the field \<open>image\<close> may still take, \<open>cur\<close> is \<open>req.file\<close> so
  far. A part without a file name is passed over. A part under another field, or under
  \<open>image\<close> when no file is left to take, ends the middleware with the library's
  \<open>Unexpected field\<close> error. A part that the callback refuses ends it with the
  callback's error before anything is written. An oversized part is cut off while it is
  written and ends the middleware with the library's \<open>File too large\<close> error.
  Otherwise the part is staged, \<open>req.file\<close> is set and the next part is taken.
\<close>

fun make_middleware ::
  "world \<Rightarrow> nat \<Rightarrow> multer_file option \<Rightarrow> file_part list
     \<Rightarrow> event list \<times> (js_error + multer_file option)" where
  "make_middleware w left cur [] = ([], Inr cur)"
| "make_middleware w left cur (p # ps) =
     (if originalname p = [] then make_middleware w left cur ps
      else if fieldname p \<noteq> ''image'' \<or> left = 0
      then (remove_uploaded cur, Inl (JsError ''MulterError'' ''Unexpected field''))
      else
        (case fileFilter p of
           Some error \<Rightarrow> (FilterCall p # remove_uploaded cur, Inl error)
         | None \<Rightarrow>
             if exceeds_limit p
             then (FilterCall p # WriteTemp (staged_path w) # RemoveTemp (staged_path w)
                     # remove_uploaded cur,
                   Inl (JsError ''MulterError'' ''File too large''))
             else
               (case make_middleware w (left - 1)
                       (Some \<lparr>fieldname = fieldname p, originalname = originalname p,
                              mimetype = mimetype p, size_bytes = size_bytes p,
                              path = staged_path w\<rparr>) ps of
                  (evs, r) \<Rightarrow> (FilterCall p # WriteTemp (staged_path w) # evs, r))))"

text \<open>\<open>upload.single('image')\<close>: the field \<open>image\<close> takes one file.\<close>

definition upload_single :: "world \<Rightarrow> request \<Rightarrow> event list \<times> (js_error + multer_file option)" where
  "upload_single w rq = make_middleware w 1 None (files rq)"

section \<open>Classification client\<close>

text \<open>
  \<open>uploadToGemini\<close>: the file store is called with the path, the MIME type and the
  base name of the path as display name. On success the handle is logged and returned;
  an error is logged and thrown again.
\<close>

definition uploadToGemini :: "world \<Rightarrow> string \<Rightarrow> string \<Rightarrow> event list \<times> (js_error + remote_file)" where
  "uploadToGemini w filePath mime =
     (case uploadFile_result w of
        Inr file \<Rightarrow>
          ([UploadFile filePath mime (path_basename filePath),
            ConsoleLog (''Uploaded file '' @ displayName file @ '' as: '' @ name file)],
           Inr file)
      | Inl error \<Rightarrow>
          ([UploadFile filePath mime (path_basename filePath),
            ConsoleError ''Error uploading to Gemini:'' error],
           Inl error))"

definition generationConfig :: generation_config where
  "generationConfig =
     \<lparr>temperature = 1, topP = 0.95, topK = 40, maxOutputTokens = 8192,
      responseMimeType = ''text/plain''\<rparr>"

definition prompt :: string where
  "prompt = ''Is this image of the moon? Give answer in yes or no only''"

section \<open>The page sent on a positive answer\<close>

definition nl :: string where
  "nl = [CHR 0x0A]"

definition heading :: string where
  "heading = ''<h1>Dingdingdingding</h1>''"

text \<open>The greeting ends with U+1F380, four bytes in UTF-8.\<close>

definition greeting :: string where
  "greeting =
     ''HAPPY BIRTHDAYYYY MOONPIE!!!! I LOVE YOUUU SO MUCH YOU LITTLE DINGUS ''
     @ [CHR 0xF0, CHR 0x9F, CHR 0x8E, CHR 0x80]"

definition page_top :: string where
  \<open>page_top =
     nl @ ''        <!DOCTYPE html>''
     @ nl @ ''        <html lang="en">''
     @ nl @ ''        <head>''
     @ nl @ ''          <meta charset="UTF-8">''
     @ nl @ ''          <meta name="viewport" content="width=device-width, initial-scale=1.0">''
     @ nl @ ''          <title>Surprise!!!</title>''
     @ nl @ ''          <link rel="stylesheet" href="style.css">''
     @ nl @ ''        </head>''
     @ nl @ ''        <body>''
     @ nl @ ''          <div class="container">''
     @ nl @ ''            ''\<close>

definition page_bottom :: string where
  \<open>page_bottom =
     nl @ ''          </div>''
     @ nl @ ''        </body>''
     @ nl @ ''        </html>''
     @ nl @ ''      ''\<close>

definition page :: string where
  "page = page_top @ heading @ nl @ ''            <p>'' @ greeting @ ''</p>'' @ page_bottom"

section \<open>The route handler\<close>

text \<open>Lines 118 to 142: the reply is lower-cased, logged and tested for \<open>yes\<close>.\<close>

definition answer :: "string \<Rightarrow> event list" where
  "answer reply =
     [ConsoleLog (''Gemini Response: '' @ toLowerCase reply),
      Respond (if str_includes (toLowerCase reply) ''yes'' then Send 200 page
               else Redirect ''/'')]"

text \<open>
  Lines 98 to 116: a chat session on the fixed configuration, its history the one
  user message that refers to the remote file, then the fixed prompt.
\<close>

definition classify :: "world \<Rightarrow> remote_file \<Rightarrow> event list \<times> js_error option" where
  "classify w uploadedFile =
     (case startChat_result w of
        Some error \<Rightarrow>
          ([StartChat generationConfig
              [\<lparr>role = ''user'',
                parts = [FileData (mimeType uploadedFile) (uri uploadedFile)]\<rparr>]],
           Some error)
      | None \<Rightarrow>
          (case sendMessage_result w of
             Inl error \<Rightarrow>
               ([StartChat generationConfig
                   [\<lparr>role = ''user'',
                     parts = [FileData (mimeType uploadedFile) (uri uploadedFile)]\<rparr>],
                 SendMessage prompt],
                Some error)
           | Inr reply \<Rightarrow>
               ([StartChat generationConfig
                   [\<lparr>role = ''user'',
                     parts = [FileData (mimeType uploadedFile) (uri uploadedFile)]\<rparr>],
                 SendMessage prompt] @ answer reply,
                None)))"

text \<open>
  Reading \<open>req.file.path\<close> when \<open>req.file\<close> is \<open>undefined\<close> throws a
  \<open>TypeError\<close>; the message is the one of the engine that Node runs on.
\<close>

definition undefined_path :: js_error where
  \<open>undefined_path =
     JsError ''TypeError'' ''Cannot read properties of undefined (reading 'path')''\<close>

text \<open>
  The body of the \<open>try\<close>, lines 85 to 142: its effects, and the error with which
  it was left, if any.
\<close>

definition try_block :: "world \<Rightarrow> multer_file option \<Rightarrow> event list \<times> js_error option" where
  "try_block w file =
     (case file of
        None \<Rightarrow> ([], Some undefined_path)
      | Some f \<Rightarrow>
          (case uploadToGemini w (path f) (mimetype f) of
             (evs, Inl error) \<Rightarrow>
               (ConsoleLog (''Received file: '' @ originalname f @ '' with MIME type: ''
                            @ mimetype f) # evs,
                Some error)
           | (evs, Inr uploadedFile) \<Rightarrow>
               (case unlink_result w of
                  Some error \<Rightarrow>
                    (ConsoleLog (''Received file: '' @ originalname f @ '' with MIME type: ''
                                 @ mimetype f) # evs
                     @ [Unlink (path f) (Some error)],
                     Some error)
                | None \<Rightarrow>
                    (case classify w uploadedFile of
                       (evs', thrown) \<Rightarrow>
                         (ConsoleLog (''Received file: '' @ originalname f
                                      @ '' with MIME type: '' @ mimetype f) # evs
                          @ [Unlink (path f) None,
                             ConsoleLog (''Deleted temp file: '' @ path f)]
                          @ evs',
                          thrown)))))"

text \<open>The \<open>catch\<close>, lines 143 to 151.\<close>

definition catch_block :: "js_error \<Rightarrow> event list" where
  "catch_block error =
     [ConsoleError ''Error processing upload:'' error,
      Respond (if str_includes (message error) ''Only image files are allowed''
               then Send 400 ''Invalid file type. Please upload an image.''
               else Send 500 ''An error occurred while processing your image.'')]"

definition route_handler :: "world \<Rightarrow> multer_file option \<Rightarrow> event list" where
  "route_handler w file =
     (case try_block w file of
        (evs, None) \<Rightarrow> evs
      | (evs, Some error) \<Rightarrow> evs @ catch_block error)"

section \<open>Dispatch of POST /upload\<close>

text \<open>
  The request passes the logging middleware, the static middleware (which lets every
  request other than GET and HEAD through), then \<open>upload.single('image')\<close> and the
  route handler. The application registers no error-handling middleware: when the upload
  middleware ends with an error, the framework skips the route handler and its built-in
  handler answers.
\<close>

definition post_upload :: "world \<Rightarrow> request \<Rightarrow> event list" where
  "post_upload w rq =
     ConsoleLog (''POST '' @ url rq) #
     (case upload_single w rq of
        (evs, Inl error) \<Rightarrow> evs @ [Respond (FinalHandler error)]
      | (evs, Inr file) \<Rightarrow> evs @ route_handler w file)"

section \<open>The response on the wire\<close>

text \<open>
  The status of a response: the one given to \<open>res.status\<close> (200 without it), 302 for
  \<open>res.redirect\<close> with an address only, and 500 from the built-in error handler for
  an error that carries no status of its own, as every error here.
\<close>

fun status_of :: "response \<Rightarrow> nat" where
  "status_of (Send n b) = n"
| "status_of (Redirect a) = 302"
| "status_of (FinalHandler e) = 500"

text \<open>
  The body that the framework writes for \<open>res.redirect(address)\<close>, by the negotiated
  format. The address is written as it is: the only address of this program,
  \<open>/\<close>, has nothing to encode or to escape. (Releases of the framework before 4.20
  write the address of the HTML form as a link.)
\<close>

fun redirect_body :: "negotiated \<Rightarrow> string \<Rightarrow> string" where
  "redirect_body Text a = ''Found. Redirecting to '' @ a"
| "redirect_body Html a = ''<p>Found. Redirecting to '' @ a @ ''</p>''"
| "redirect_body Neither a = []"

text \<open>
  The body of a response. \<open>None\<close>: the page of the built-in error handler, whose text
  depends on the environment and is not modelled.
\<close>

fun body_of :: "negotiated \<Rightarrow> response \<Rightarrow> string option" where
  "body_of n (Send k b) = Some b"
| "body_of n (Redirect a) = Some (redirect_body n a)"
| "body_of n (FinalHandler e) = None"

section \<open>Server start\<close>

text \<open>
  \<open>process.env.PORT || 3000\<close>: an environment variable is a string or is unset; the
  unset variable and the empty string are falsy, every other string is kept as it is.
\<close>

datatype js_value = Num nat | Str string

definition PORT :: "string option \<Rightarrow> js_value" where
  "PORT env_PORT =
     (case env_PORT of
        None \<Rightarrow> Num 3000
      | Some s \<Rightarrow> if s = [] then Num 3000 else Str s)"

fun template :: "js_value \<Rightarrow> string" where
  "template (Num n) = decimal n"
| "template (Str s) = s"

text \<open>
  \<open>app.listen(PORT, callback)\<close>: the value handed to \<open>listen\<close>, and what the
  callback logs once the server is bound (\<open>bound\<close>).
\<close>

definition listen :: "string option \<Rightarrow> bool \<Rightarrow> js_value \<times> event list" where
  "listen env_PORT bound =
     (PORT env_PORT,
      if bound then [ConsoleLog (''Server running on port '' @ template (PORT env_PORT))]
      else [])"

text \<open>
  The TCP port that a value handed to \<open>listen\<close> stands for: a number below 65536, or
  a string of decimal digits read as such a number. \<open>None\<close> is every other value; what
  the runtime does with those is outside this model.
\<close>

definition digit :: "char \<Rightarrow> bool" where
  "digit c = (48 \<le> (of_char c :: nat) \<and> (of_char c :: nat) \<le> 57)"

definition read_decimal :: "string \<Rightarrow> nat" where
  "read_decimal s = foldl (\<lambda>n c. 10 * n + (of_char c - 48)) 0 s"

definition port_number :: "js_value \<Rightarrow> nat option" where
  "port_number v =
     (case v of
        Num n \<Rightarrow> if n < 65536 then Some n else None
      | Str s \<Rightarrow>
          if s \<noteq> [] \<and> list_all digit s \<and> read_decimal s < 65536
          then Some (read_decimal s) else None)"

section \<open>Reading a run\<close>

text \<open>
  The responses, the paths on which \<open>fs.unlink\<close> is called (whatever the outcome),
  the same calls with their outcomes, the chat sessions and the chat messages among the
  events.
\<close>

fun responses :: "event list \<Rightarrow> response list" where
  "responses [] = []"
| "responses (Respond r # es) = r # responses es"
| "responses (e # es) = responses es"

fun deletions :: "event list \<Rightarrow> string list" where
  "deletions [] = []"
| "deletions (Unlink p r # es) = p # deletions es"
| "deletions (e # es) = deletions es"

fun unlink_calls :: "event list \<Rightarrow> (string \<times> js_error option) list" where
  "unlink_calls [] = []"
| "unlink_calls (Unlink p r # es) = (p, r) # unlink_calls es"
| "unlink_calls (e # es) = unlink_calls es"

fun sessions :: "event list \<Rightarrow> (generation_config \<times> content list) list" where
  "sessions [] = []"
| "sessions (StartChat c h # es) = (c, h) # sessions es"
| "sessions (e # es) = sessions es"

fun messages :: "event list \<Rightarrow> string list" where
  "messages [] = []"
| "messages (SendMessage m # es) = m # messages es"
| "messages (e # es) = messages es"

text \<open>The errors that entered the \<open>catch\<close> of the route handler, which logs each.\<close>

fun caught :: "event list \<Rightarrow> js_error list" where
  "caught [] = []"
| "caught (ConsoleError l e # es) =
     (if l = ''Error processing upload:'' then e # caught es else caught es)"
| "caught (e # es) = caught es"

text \<open>
  The operations of a request, log lines left out; the chat call is the creation of the
  session and the message sent to it; \<open>CleanUp\<close> is a removal by the multipart layer.
\<close>

datatype operation =
  Validate | StageTemp | CleanUp | RemoteUpload | DeleteTemp | StartSession | SendPrompt
  | RespondOp

fun operation_of :: "event \<Rightarrow> operation list" where
  "operation_of (FilterCall f) = [Validate]"
| "operation_of (WriteTemp p) = [StageTemp]"
| "operation_of (RemoveTemp p) = [CleanUp]"
| "operation_of (UploadFile p m d) = [RemoteUpload]"
| "operation_of (Unlink p r) = [DeleteTemp]"
| "operation_of (StartChat c h) = [StartSession]"
| "operation_of (SendMessage m) = [SendPrompt]"
| "operation_of (Respond r) = [RespondOp]"
| "operation_of (ConsoleLog l) = []"
| "operation_of (ConsoleError l e) = []"

fun operations :: "event list \<Rightarrow> operation list" where
  "operations [] = []"
| "operations (e # es) = operation_of e @ operations es"

definition strict_sequence :: "operation list" where
  "strict_sequence =
     [Validate, StageTemp, RemoteUpload, DeleteTemp, StartSession, SendPrompt]"

text \<open>
  The files on disk: a write adds its path, a removal by the multipart layer and an
  \<open>fs.unlink\<close> that succeeds remove it, an \<open>fs.unlink\<close> that throws leaves it.
  \<open>snapshots\<close> gives every event together with the disk as the event finds it.
\<close>

fun disk_step :: "event \<Rightarrow> string set \<Rightarrow> string set" where
  "disk_step (WriteTemp p) disk = insert p disk"
| "disk_step (RemoveTemp p) disk = disk - {p}"
| "disk_step (Unlink p None) disk = disk - {p}"
| "disk_step e disk = disk"

fun snapshots :: "string set \<Rightarrow> event list \<Rightarrow> (event \<times> string set) list" where
  "snapshots disk [] = []"
| "snapshots disk (e # es) = (e, disk) # snapshots (disk_step e disk) es"

definition disk_after :: "string set \<Rightarrow> event list \<Rightarrow> string set" where
  "disk_after disk es = fold disk_step es disk"

fun chat_call :: "event \<Rightarrow> bool" where
  "chat_call (StartChat c h) = True"
| "chat_call (SendMessage m) = True"
| "chat_call e = False"

section \<open>Runs written out\<close>

text \<open>
  The file of a request that carries exactly one file part, named and under the field
  \<open>image\<close>.
\<close>

definition image_file :: "request \<Rightarrow> file_part option" where
  "image_file rq =
     (case files rq of
        [p] \<Rightarrow> if fieldname p = ''image'' \<and> originalname p \<noteq> [] then Some p else None
      | _ \<Rightarrow> None)"

text \<open>
  The events of every such run that passes the upload middleware, up to and including
  the call of the remote file store.
\<close>

definition intake :: "world \<Rightarrow> request \<Rightarrow> file_part \<Rightarrow> event list" where
  "intake w rq f =
     [ConsoleLog (''POST '' @ url rq), FilterCall f, WriteTemp (staged_path w),
      ConsoleLog (''Received file: '' @ originalname f @ '' with MIME type: '' @ mimetype f),
       UploadFile (staged_path w) (mimetype f) (path_basename (staged_path w))]"

text \<open>A request and an outside world for which every step succeeds, and variations.\<close>

definition moon_part :: file_part where
  "moon_part =
     \<lparr>fieldname = ''image'', originalname = ''moon.png'', mimetype = ''image/png'',
      size_bytes = 204800\<rparr>"

definition moon_request :: request where
  "moon_request = \<lparr>url = ''/upload'', accepts = Text, files = [moon_part]\<rparr>"

definition moon_handle :: remote_file where
  "moon_handle =
     \<lparr>displayName = ''5f3a9c'', name = ''files/k2x'', mimeType = ''image/png'',
      uri = ''https://files.example/k2x''\<rparr>"

definition moon_world :: world where
  "moon_world =
     \<lparr>staged_path = ''/tmp/5f3a9c'', uploadFile_result = Inr moon_handle,
      unlink_result = None, startChat_result = None,
      sendMessage_result = Inr ''yess? no''\<rparr>"

text \<open>Worlds in which the model answers \<open>YES\<close>, and that the image shows a cat.\<close>

definition loud_world :: world where
  "loud_world = moon_world\<lparr>sendMessage_result := Inr ''YES''\<rparr>"

definition cat_world :: world where
  "cat_world = moon_world\<lparr>sendMessage_result := Inr ''No, this is a cat.''\<rparr>"

text \<open>A text file and a PDF sent under the field \<open>image\<close>.\<close>

definition notes_part :: file_part where
  "notes_part =
     \<lparr>fieldname = ''image'', originalname = ''notes.txt'', mimetype = ''text/plain'',
      size_bytes = 12\<rparr>"

definition notes_request :: request where
  "notes_request = \<lparr>url = ''/upload'', accepts = Text, files = [notes_part]\<rparr>"

definition pdf_part :: file_part where
  "pdf_part =
     \<lparr>fieldname = ''image'', originalname = ''moon.pdf'', mimetype = ''application/pdf'',
      size_bytes = 4096\<rparr>"

definition pdf_request :: request where
  "pdf_request = \<lparr>url = ''/upload'', accepts = Text, files = [pdf_part]\<rparr>"




text \<open>Worlds in which the remote file store throws.\<close>

definition offline_world :: world where
  "offline_world = moon_world\<lparr>uploadFile_result := Inl (JsError ''Error'' ''fetch failed'')\<rparr>"

definition picky_world :: world where
  "picky_world =
     moon_world\<lparr>uploadFile_result :=
       Inl (JsError ''Error'' ''[400 Bad Request] Only image files are allowed'')\<rparr>"

text \<open>A world in which the staged file cannot be deleted.\<close>

definition stuck_world :: world where
  "stuck_world =
     moon_world\<lparr>unlink_result :=
       Some (JsError ''Error'' ''EPERM: operation not permitted, unlink'')\<rparr>"

section \<open>Properties\<close>

subsection \<open>Strings\<close>

lemma str_includes_sublist: "str_includes s sub = sublist sub s"
  by (induction s) (auto simp: sublist_Cons_right)

lemma str_includes_iff: "str_includes s sub \<longleftrightarrow> (\<exists>ps ss. s = ps @ sub @ ss)"
  by (simp add: str_includes_sublist sublist_def)

lemma of_char_lower:
  assumes "65 \<le> (of_char c :: nat)" and "(of_char c :: nat) \<le> 90"
  shows "(of_char (lower_char c) :: nat) = of_char c + 32"
  using assms by (simp add: lower_char_def Let_def)

lemma lower_char_small:
  assumes "97 \<le> (of_char t :: nat)" and "(of_char t :: nat) \<le> 122"
  shows "lower_char c = t \<longleftrightarrow> c = t \<or> c = char_of ((of_char t :: nat) - 32)"
proof (cases "65 \<le> (of_char c :: nat) \<and> (of_char c :: nat) \<le> 90")
  case True
  then have l: "(of_char (lower_char c) :: nat) = of_char c + 32"
    by (simp add: of_char_lower)
  show ?thesis
  proof
    assume "lower_char c = t"
    with l have "(of_char c :: nat) = of_char t - 32" by simp
    then have "char_of (of_char c :: nat) = char_of ((of_char t :: nat) - 32)" by simp
    then show "c = t \<or> c = char_of ((of_char t :: nat) - 32)" by simp
  next
    assume "c = t \<or> c = char_of ((of_char t :: nat) - 32)"
    with True assms have c: "c = char_of ((of_char t :: nat) - 32)" by auto
    have "(of_char c :: nat) = of_char t - 32"
      using assms by (simp add: c)
    with l assms have "(of_char (lower_char c) :: nat) = of_char t" by simp
    then show "lower_char c = t" by simp
  qed
next
  case False
  then have "lower_char c = c" by (auto simp: lower_char_def Let_def)
  moreover have "c \<noteq> char_of ((of_char t :: nat) - 32)"
  proof
    assume "c = char_of ((of_char t :: nat) - 32)"
    then have "(of_char c :: nat) = of_char t - 32" using assms by simp
    with False assms show False by arith
  qed
  ultimately show ?thesis by auto
qed

lemma lower_y: "lower_char c = CHR ''y'' \<longleftrightarrow> c = CHR ''y'' \<or> c = CHR ''Y''"
proof -
  have "char_of (89::nat) = CHR ''Y''" by code_simp
  then show ?thesis using lower_char_small [of "CHR ''y''" c] by simp
qed

lemma lower_e: "lower_char c = CHR ''e'' \<longleftrightarrow> c = CHR ''e'' \<or> c = CHR ''E''"
proof -
  have "char_of (69::nat) = CHR ''E''" by code_simp
  then show ?thesis using lower_char_small [of "CHR ''e''" c] by simp
qed

lemma lower_s: "lower_char c = CHR ''s'' \<longleftrightarrow> c = CHR ''s'' \<or> c = CHR ''S''"
proof -
  have "char_of (83::nat) = CHR ''S''" by code_simp
  then show ?thesis using lower_char_small [of "CHR ''s''" c] by simp
qed


lemma lower_yes:
  "str_includes (toLowerCase s) ''yes'' \<longleftrightarrow>
     (\<exists>ps a b c ss. s = ps @ [a, b, c] @ ss
        \<and> (a = CHR ''y'' \<or> a = CHR ''Y'') \<and> (b = CHR ''e'' \<or> b = CHR ''E'')
        \<and> (c = CHR ''s'' \<or> c = CHR ''S''))"
proof
  assume "str_includes (toLowerCase s) ''yes''"
  then obtain ps' ss' where "map lower_char s = ps' @ ''yes'' @ ss'"
    by (auto simp: str_includes_iff toLowerCase_def)
  then obtain ps a b c ss where s: "s = ps @ a # b # c # ss"
    and abc: "CHR ''y'' = lower_char a" "CHR ''e'' = lower_char b" "CHR ''s'' = lower_char c"
    by (auto simp: map_eq_append_conv map_eq_Cons_conv)
  from abc have "lower_char a = CHR ''y''" "lower_char b = CHR ''e''"
    "lower_char c = CHR ''s''"
    by simp_all
  with s have "s = ps @ [a, b, c] @ ss
        \<and> (a = CHR ''y'' \<or> a = CHR ''Y'') \<and> (b = CHR ''e'' \<or> b = CHR ''E'')
        \<and> (c = CHR ''s'' \<or> c = CHR ''S'')"
    unfolding lower_y lower_e lower_s by simp
  then show "\<exists>ps a b c ss. s = ps @ [a, b, c] @ ss
        \<and> (a = CHR ''y'' \<or> a = CHR ''Y'') \<and> (b = CHR ''e'' \<or> b = CHR ''E'')
        \<and> (c = CHR ''s'' \<or> c = CHR ''S'')"
    by blast
next
  assume "\<exists>ps a b c ss. s = ps @ [a, b, c] @ ss
        \<and> (a = CHR ''y'' \<or> a = CHR ''Y'') \<and> (b = CHR ''e'' \<or> b = CHR ''E'')
        \<and> (c = CHR ''s'' \<or> c = CHR ''S'')"
  then obtain ps a b c ss where s: "s = ps @ [a, b, c] @ ss"
    and l: "lower_char a = CHR ''y''" "lower_char b = CHR ''e''" "lower_char c = CHR ''s''"
    unfolding lower_y lower_e lower_s by blast
  have "toLowerCase s = map lower_char ps @ ''yes'' @ map lower_char ss"
    by (simp add: s l toLowerCase_def)
  then show "str_includes (toLowerCase s) ''yes''"
    unfolding str_includes_iff by blast
qed


subsection \<open>The upload middleware\<close>

lemma image_file_SomeD:
  "image_file rq = Some f \<Longrightarrow>
   files rq = [f] \<and> fieldname f = ''image'' \<and> originalname f \<noteq> []"
  by (auto simp: image_file_def split: list.splits if_splits)


lemma upload_single_refused:
  "image_file rq = Some f \<Longrightarrow> fileFilter f = Some e \<Longrightarrow>
   upload_single w rq = ([FilterCall f], Inl e)"
  by (drule image_file_SomeD) (simp add: upload_single_def)


lemma upload_single_staged:
  "image_file rq = Some f \<Longrightarrow> fileFilter f = None \<Longrightarrow> \<not> exceeds_limit f \<Longrightarrow>
   upload_single w rq =
     ([FilterCall f, WriteTemp (staged_path w)],
      Inr (Some \<lparr>fieldname = fieldname f, originalname = originalname f,
                 mimetype = mimetype f, size_bytes = size_bytes f,
                 path = staged_path w\<rparr>))"
  by (drule image_file_SomeD) (simp add: upload_single_def)

subsection \<open>The runs, case by case\<close>


lemma run_refused:
  "image_file rq = Some f \<Longrightarrow> fileFilter f = Some e \<Longrightarrow>
   post_upload w rq = [ConsoleLog (''POST '' @ url rq), FilterCall f, Respond (FinalHandler e)]"
  by (simp add: post_upload_def upload_single_refused)


lemma run_upload_failed:
  "image_file rq = Some f \<Longrightarrow> fileFilter f = None \<Longrightarrow> \<not> exceeds_limit f \<Longrightarrow>
   uploadFile_result w = Inl e \<Longrightarrow>
   post_upload w rq =
     intake w rq f @ ConsoleError ''Error uploading to Gemini:'' e # catch_block e"
  by (simp add: post_upload_def upload_single_staged route_handler_def try_block_def
      uploadToGemini_def intake_def)

lemma run_unlink_failed:
  "image_file rq = Some f \<Longrightarrow> fileFilter f = None \<Longrightarrow> \<not> exceeds_limit f \<Longrightarrow>
   uploadFile_result w = Inr h \<Longrightarrow> unlink_result w = Some e \<Longrightarrow>
   post_upload w rq =
     intake w rq f
     @ [ConsoleLog (''Uploaded file '' @ displayName h @ '' as: '' @ name h),
        Unlink (staged_path w) (Some e)]
     @ catch_block e"
  by (simp add: post_upload_def upload_single_staged route_handler_def try_block_def
      uploadToGemini_def intake_def)

lemma run_unlinked:
  "image_file rq = Some f \<Longrightarrow> fileFilter f = None \<Longrightarrow> \<not> exceeds_limit f \<Longrightarrow>
   uploadFile_result w = Inr h \<Longrightarrow> unlink_result w = None \<Longrightarrow>
   post_upload w rq =
     intake w rq f
     @ [ConsoleLog (''Uploaded file '' @ displayName h @ '' as: '' @ name h),
        Unlink (staged_path w) None,
        ConsoleLog (''Deleted temp file: '' @ staged_path w)]
     @ (case classify w h of (evs, None) \<Rightarrow> evs | (evs, Some e) \<Rightarrow> evs @ catch_block e)"
  by (simp add: post_upload_def upload_single_staged route_handler_def try_block_def
      uploadToGemini_def intake_def split: prod.splits option.splits)

lemma run_startChat_failed:
  "image_file rq = Some f \<Longrightarrow> fileFilter f = None \<Longrightarrow> \<not> exceeds_limit f \<Longrightarrow>
   uploadFile_result w = Inr h \<Longrightarrow> unlink_result w = None \<Longrightarrow>
   startChat_result w = Some e \<Longrightarrow>
   post_upload w rq =
     intake w rq f
     @ [ConsoleLog (''Uploaded file '' @ displayName h @ '' as: '' @ name h),
        Unlink (staged_path w) None,
        ConsoleLog (''Deleted temp file: '' @ staged_path w),
        StartChat generationConfig
          [\<lparr>role = ''user'', parts = [FileData (mimeType h) (uri h)]\<rparr>]]
     @ catch_block e"
  by (simp add: run_unlinked classify_def)

lemma run_send_failed:
  "image_file rq = Some f \<Longrightarrow> fileFilter f = None \<Longrightarrow> \<not> exceeds_limit f \<Longrightarrow>
   uploadFile_result w = Inr h \<Longrightarrow> unlink_result w = None \<Longrightarrow>
   startChat_result w = None \<Longrightarrow> sendMessage_result w = Inl e \<Longrightarrow>
   post_upload w rq =
     intake w rq f
     @ [ConsoleLog (''Uploaded file '' @ displayName h @ '' as: '' @ name h),
        Unlink (staged_path w) None,
        ConsoleLog (''Deleted temp file: '' @ staged_path w),
        StartChat generationConfig
          [\<lparr>role = ''user'', parts = [FileData (mimeType h) (uri h)]\<rparr>],
        SendMessage prompt]
     @ catch_block e"
  by (simp add: run_unlinked classify_def)

lemma run_classified:
  "image_file rq = Some f \<Longrightarrow> fileFilter f = None \<Longrightarrow> \<not> exceeds_limit f \<Longrightarrow>
   uploadFile_result w = Inr h \<Longrightarrow> unlink_result w = None \<Longrightarrow>
   startChat_result w = None \<Longrightarrow> sendMessage_result w = Inr reply \<Longrightarrow>
   post_upload w rq =
     intake w rq f
     @ [ConsoleLog (''Uploaded file '' @ displayName h @ '' as: '' @ name h),
        Unlink (staged_path w) None,
        ConsoleLog (''Deleted temp file: '' @ staged_path w),
        StartChat generationConfig
          [\<lparr>role = ''user'', parts = [FileData (mimeType h) (uri h)]\<rparr>],
        SendMessage prompt]
     @ answer reply"
  by (simp add: run_unlinked classify_def)

lemma moon_passes:
  "image_file moon_request = Some moon_part" "fileFilter moon_part = None"
  "\<not> exceeds_limit moon_part"
  by (simp_all add: image_file_def moon_request_def moon_part_def fileFilter_def
      startsWith_def exceeds_limit_def fileSize_def)

lemma moon_run:
  "uploadFile_result moon_world = Inr moon_handle" "unlink_result moon_world = None"
  "startChat_result moon_world = None" "sendMessage_result moon_world = Inr ''yess? no''"
  by (simp_all add: moon_world_def)

lemma loud_run:
  "uploadFile_result loud_world = Inr moon_handle" "unlink_result loud_world = None"
  "startChat_result loud_world = None" "sendMessage_result loud_world = Inr ''YES''"
  by (simp_all add: loud_world_def moon_world_def)

lemma cat_run:
  "uploadFile_result cat_world = Inr moon_handle" "unlink_result cat_world = None"
  "startChat_result cat_world = None"
  "sendMessage_result cat_world = Inr ''No, this is a cat.''"
  by (simp_all add: cat_world_def moon_world_def)


subsection \<open>The answer to the reply\<close>

lemma lowered_replies:
  "toLowerCase ''Yes.'' = ''yes.''" "toLowerCase ''YES'' = ''yes''"
  "toLowerCase ''Yes indeed'' = ''yes indeed''" "toLowerCase ''yess? no'' = ''yess? no''"
  "toLowerCase ''No, this is a cat.'' = ''no, this is a cat.''"
  by code_simp+

lemma positive_replies:
  "str_includes (toLowerCase ''Yes.'') ''yes''"
  "str_includes (toLowerCase ''YES'') ''yes''"
  "str_includes (toLowerCase ''Yes indeed'') ''yes''"
  "str_includes (toLowerCase ''yess? no'') ''yes''"
  by code_simp+

lemma negative_replies:
  "\<not> str_includes (toLowerCase ''No, this is a cat.'') ''yes''"
  "\<not> str_includes (toLowerCase []) ''yes''"
  "\<not> str_includes ''YES'' ''yes''"
  by code_simp+

lemma page_includes_heading: "str_includes page ''<h1>Dingdingdingding</h1>''"
  unfolding str_includes_iff page_def heading_def by blast

lemma page_includes_greeting:
  "str_includes page
     (''HAPPY BIRTHDAYYYY MOONPIE!!!! I LOVE YOUUU SO MUCH YOU LITTLE DINGUS ''
      @ [CHR 0xF0, CHR 0x9F, CHR 0x8E, CHR 0x80])"
  unfolding str_includes_iff page_def greeting_def
  by (metis append.assoc)

text \<open>
  Claim C1 as it stands fails in its last words: the redirect that answers a reply
  without \<open>yes\<close> has a message body, the redirect notice that the framework writes.
\<close>

theorem redirect_body_counterexample:
  "responses (post_upload cat_world moon_request) = [Redirect ''/'']
   \<and> body_of (accepts moon_request) (Redirect ''/'') = Some ''Found. Redirecting to /''
   \<and> body_of (accepts moon_request) (Redirect ''/'') \<noteq> Some []"
  using negative_replies(1)
  by (simp add: run_classified [OF moon_passes cat_run] intake_def answer_def)
    (simp add: moon_request_def)

text \<open>
  Claim C1, amended. When a POST /upload request gets as far as a reply of the model, the
  reply is lower-cased and searched for \<open>yes\<close>, so that the search succeeds exactly
  when the reply holds the three letters in a row in any mix of capitals and small
  letters, as \<open>Yes.\<close>, \<open>YES\<close> and \<open>yess? no\<close> do. If it succeeds, the one
  response is status 200 with the inline page as body, which contains the heading
  \<open>Dingdingdingding\<close> and the birthday greeting. If not, the one response is a
  redirect to \<open>/\<close> with status 302, to which the application gives no message: its
  body is the redirect notice of the framework for the negotiated format,
  \<open>Found. Redirecting to /\<close> as plain text, and empty only when the client accepts
  neither plain text nor HTML.
\<close>

theorem classification_response:
  assumes "image_file rq = Some f" and "fileFilter f = None" and "\<not> exceeds_limit f"
    and "uploadFile_result w = Inr h" and "unlink_result w = None"
    and "startChat_result w = None" and "sendMessage_result w = Inr reply"
  shows "responses (post_upload w rq) =
           [if str_includes (toLowerCase reply) ''yes'' then Send 200 page else Redirect ''/'']
         \<and> map (\<lambda>r. (status_of r, body_of (accepts rq) r)) (responses (post_upload w rq)) =
             [if str_includes (toLowerCase reply) ''yes'' then (200, Some page)
              else (302, Some (redirect_body (accepts rq) ''/''))]
         \<and> (str_includes (toLowerCase reply) ''yes'' \<longleftrightarrow>
              (\<exists>ps a b c ss. reply = ps @ [a, b, c] @ ss
                 \<and> (a = CHR ''y'' \<or> a = CHR ''Y'') \<and> (b = CHR ''e'' \<or> b = CHR ''E'')
                 \<and> (c = CHR ''s'' \<or> c = CHR ''S'')))
         \<and> str_includes (toLowerCase ''Yes.'') ''yes''
         \<and> str_includes (toLowerCase ''YES'') ''yes''
         \<and> str_includes (toLowerCase ''yess? no'') ''yes''
         \<and> \<not> str_includes (toLowerCase ''No, this is a cat.'') ''yes''
         \<and> str_includes page ''<h1>Dingdingdingding</h1>''
         \<and> str_includes page
              (''HAPPY BIRTHDAYYYY MOONPIE!!!! I LOVE YOUUU SO MUCH YOU LITTLE DINGUS ''
               @ [CHR 0xF0, CHR 0x9F, CHR 0x8E, CHR 0x80])
         \<and> redirect_body Text ''/'' = ''Found. Redirecting to /''
         \<and> redirect_body Html ''/'' = ''<p>Found. Redirecting to /</p>''
         \<and> redirect_body Neither ''/'' = []"
proof -
  have r: "responses (post_upload w rq) =
          [if str_includes (toLowerCase reply) ''yes'' then Send 200 page else Redirect ''/'']"
    by (simp add: run_classified [OF assms] intake_def answer_def)
  have m: "map (\<lambda>r. (status_of r, body_of (accepts rq) r)) (responses (post_upload w rq)) =
             [if str_includes (toLowerCase reply) ''yes'' then (200, Some page)
              else (302, Some (redirect_body (accepts rq) ''/''))]"
    by (simp add: r)
  note y = lower_yes [of reply]
  from r m y show ?thesis
    using positive_replies negative_replies(1) page_includes_heading page_includes_greeting
    by simp
qed

theorem classification_response_witness:
  "responses (post_upload loud_world moon_request) = [Send 200 page]
   \<and> responses (post_upload moon_world moon_request) = [Send 200 page]
   \<and> map (\<lambda>r. (status_of r, body_of (accepts moon_request) r))
        (responses (post_upload cat_world moon_request)) =
       [(302, Some ''Found. Redirecting to /'')]"
proof -
  have loud: "responses (post_upload loud_world moon_request) = [Send 200 page]"
    using classification_response [OF moon_passes loud_run] positive_replies by simp
  have yess: "responses (post_upload moon_world moon_request) = [Send 200 page]"
    using classification_response [OF moon_passes moon_run] positive_replies by simp
  have cat: "map (\<lambda>r. (status_of r, body_of (accepts moon_request) r))
        (responses (post_upload cat_world moon_request)) =
       [(302, Some ''Found. Redirecting to /'')]"
    using classification_response [OF moon_passes cat_run] negative_replies(1)
    by (simp add: moon_request_def)
  from loud yess cat show ?thesis by simp
qed


subsection \<open>A request without a file\<close>





subsection \<open>Errors of the upload middleware\<close>

lemma notes_refused:
  "image_file notes_request = Some notes_part"
  "fileFilter notes_part = Some (JsError ''Error'' ''Only image files are allowed!'')"
  by (simp_all add: image_file_def notes_request_def notes_part_def fileFilter_def
      startsWith_def)

lemma pdf_refused:
  "image_file pdf_request = Some pdf_part"
  "fileFilter pdf_part = Some (JsError ''Error'' ''Only image files are allowed!'')"
  by (simp_all add: image_file_def pdf_request_def pdf_part_def fileFilter_def
      startsWith_def)

text \<open>
  Claim C2, at a file of type \<open>text/plain\<close>. The upload is refused before anything is
  written, but the error leaves the upload middleware and never enters the \<open>try\<close> of
  the route handler: the response is the one of the framework's built-in error handler,
  not status 400 with body \<open>Invalid file type. Please upload an image.\<close> A file of type
  \<open>image/png\<close> passes the callback.
\<close>

theorem text_plain_upload_response:
  "post_upload moon_world notes_request =
     [ConsoleLog ''POST /upload'', FilterCall notes_part,
      Respond (FinalHandler (JsError ''Error'' ''Only image files are allowed!''))]
   \<and> responses (post_upload moon_world notes_request) \<noteq>
       [Send 400 ''Invalid file type. Please upload an image.'']
   \<and> fileFilter moon_part = None"
  using moon_passes(2)
  by (simp add: run_refused [OF notes_refused]) (simp add: notes_request_def)

text \<open>
  Claim C3, at a file of type \<open>application/pdf\<close>. The error raised by the upload
  intake has a message that contains \<open>Only image files are allowed\<close>, yet the
  \<open>catch\<close> of the route handler is never entered and the response is not the status
  400 of that \<open>catch\<close>.
\<close>

theorem intake_error_not_caught:
  "fileFilter pdf_part = Some (JsError ''Error'' ''Only image files are allowed!'')
   \<and> str_includes ''Only image files are allowed!'' ''Only image files are allowed''
   \<and> caught (post_upload moon_world pdf_request) = []
   \<and> responses (post_upload moon_world pdf_request) =
       [FinalHandler (JsError ''Error'' ''Only image files are allowed!'')]"
  using pdf_refused(2)
  by (simp add: run_refused [OF pdf_refused])

subsection \<open>Errors inside the route handler\<close>

text \<open>
  Claim C5 as it stands fails: when the error thrown by the remote file store has a
  message that contains \<open>Only image files are allowed\<close>, the response is status 400.
\<close>

theorem upload_failure_counterexample:
  "uploadFile_result picky_world =
     Inl (JsError ''Error'' ''[400 Bad Request] Only image files are allowed'')
   \<and> responses (post_upload picky_world moon_request) =
       [Send 400 ''Invalid file type. Please upload an image.'']
   \<and> responses (post_upload picky_world moon_request) \<noteq>
       [Send 500 ''An error occurred while processing your image.'']"
proof -
  have up: "uploadFile_result picky_world =
      Inl (JsError ''Error'' ''[400 Bad Request] Only image files are allowed'')"
    by (simp add: picky_world_def moon_world_def)
  have inc: "str_includes ''[400 Bad Request] Only image files are allowed''
      ''Only image files are allowed''"
    by code_simp
  show ?thesis
    using up inc by (simp add: run_upload_failed [OF moon_passes up] intake_def catch_block_def)
qed

text \<open>
  Claim C5, amended. When \<open>uploadToGemini\<close> throws, the handler deletes nothing and
  the staged file stays on disk; the one response is status 500 with body
  \<open>An error occurred while processing your image.\<close> unless the message of the error
  contains \<open>Only image files are allowed\<close>, in which case it is status 400 with body
  \<open>Invalid file type. Please upload an image.\<close>
\<close>

theorem upload_failure_response:
  assumes "image_file rq = Some f" and "fileFilter f = None" and "\<not> exceeds_limit f"
    and "uploadFile_result w = Inl e"
  shows "responses (post_upload w rq) =
           [if str_includes (message e) ''Only image files are allowed''
            then Send 400 ''Invalid file type. Please upload an image.''
            else Send 500 ''An error occurred while processing your image.'']
         \<and> deletions (post_upload w rq) = []
         \<and> staged_path w \<in> disk_after disk (post_upload w rq)"
  by (simp add: run_upload_failed [OF assms] intake_def catch_block_def disk_after_def)

theorem upload_failure_response_witness:
  "uploadFile_result offline_world = Inl (JsError ''Error'' ''fetch failed'')
   \<and> responses (post_upload offline_world moon_request) =
       [Send 500 ''An error occurred while processing your image.'']
   \<and> deletions (post_upload offline_world moon_request) = []
   \<and> ''/tmp/5f3a9c'' \<in> disk_after {} (post_upload offline_world moon_request)"
proof -
  have up: "uploadFile_result offline_world = Inl (JsError ''Error'' ''fetch failed'')"
    by (simp add: offline_world_def moon_world_def)
  have inc: "\<not> str_includes ''fetch failed'' ''Only image files are allowed''"
    by code_simp
  have sp: "staged_path offline_world = ''/tmp/5f3a9c''"
    by (simp add: offline_world_def moon_world_def)
  show ?thesis
    using upload_failure_response [OF moon_passes up, of "{}"] up inc sp by simp
qed


subsection \<open>The staged file and the order of operations\<close>

lemma stuck_run:
  "uploadFile_result stuck_world = Inr moon_handle"
  "unlink_result stuck_world =
     Some (JsError ''Error'' ''EPERM: operation not permitted, unlink'')"
  "staged_path stuck_world = ''/tmp/5f3a9c''"
  by (simp_all add: stuck_world_def moon_world_def)

text \<open>
  Claim C4 as it stands fails: the remote upload succeeds, \<open>fs.unlink\<close> is called on
  the staged path and throws, and the staged file is never deleted from disk.
\<close>

theorem unlink_failure_counterexample:
  "uploadFile_result stuck_world = Inr moon_handle
   \<and> unlink_calls (post_upload stuck_world moon_request) =
       [(''/tmp/5f3a9c'', Some (JsError ''Error'' ''EPERM: operation not permitted, unlink''))]
   \<and> ''/tmp/5f3a9c'' \<in> disk_after {} (post_upload stuck_world moon_request)
   \<and> sessions (post_upload stuck_world moon_request) = []
   \<and> messages (post_upload stuck_world moon_request) = []"
  using stuck_run
  by (simp add: run_unlink_failed [OF moon_passes stuck_run(1,2)] intake_def catch_block_def
      disk_after_def)

text \<open>
  Claim C4, amended. When the remote upload of a POST /upload request succeeds, the next
  operation is the one call of \<open>fs.unlink\<close>, on the staged path, before any chat
  call. When that deletion succeeds, the staged file is gone from disk before the chat
  session is created and the message sent, and the chat session is created. When it
  throws, the staged file stays on disk, no chat call is made and the \<open>catch\<close>
  answers. Every creation of a chat session and every message sent finds the staged file
  gone. The operations of the request are an initial part, of at least four, of validate,
  stage, remote upload, delete, chat session, chat message, followed by the response;
  when no step fails they are the whole sequence.
\<close>

theorem temp_file_deleted_before_chat:
  assumes "image_file rq = Some f" and "fileFilter f = None" and "\<not> exceeds_limit f"
    and "uploadFile_result w = Inr h"
  shows "take 4 (operations (post_upload w rq)) =
           [Validate, StageTemp, RemoteUpload, DeleteTemp]
         \<and> unlink_calls (post_upload w rq) = [(staged_path w, unlink_result w)]
         \<and> (\<forall>(e, d) \<in> set (snapshots disk (post_upload w rq)).
               chat_call e \<longrightarrow> staged_path w \<notin> d)
         \<and> (unlink_result w = None \<longrightarrow>
               staged_path w \<notin> disk_after disk (post_upload w rq)
               \<and> StartSession \<in> set (operations (post_upload w rq)))
         \<and> (\<forall>e. unlink_result w = Some e \<longrightarrow>
               staged_path w \<in> disk_after disk (post_upload w rq)
               \<and> sessions (post_upload w rq) = [] \<and> messages (post_upload w rq) = []
               \<and> caught (post_upload w rq) = [e]
               \<and> operations (post_upload w rq) =
                   [Validate, StageTemp, RemoteUpload, DeleteTemp, RespondOp])
         \<and> (\<exists>k\<ge>4. operations (post_upload w rq) = take k strict_sequence @ [RespondOp])
         \<and> (unlink_result w = None \<longrightarrow> startChat_result w = None \<longrightarrow>
               operations (post_upload w rq) =
                 [Validate, StageTemp, RemoteUpload, DeleteTemp, StartSession, SendPrompt,
                  RespondOp])"
proof (cases "unlink_result w")
  case (Some e)
  have ops: "operations (post_upload w rq) = take 4 strict_sequence @ [RespondOp]"
    by (simp add: run_unlink_failed [OF assms Some] intake_def catch_block_def
        strict_sequence_def)
  then have "\<exists>k\<ge>4. operations (post_upload w rq) = take k strict_sequence @ [RespondOp]"
    by blast
  then show ?thesis
    using Some
    by (simp add: run_unlink_failed [OF assms Some] intake_def catch_block_def
        disk_after_def)
next
  case None
  note unlinked = assms None
  show ?thesis
  proof (cases "startChat_result w")
    case (Some e)
    have ops: "operations (post_upload w rq) = take 5 strict_sequence @ [RespondOp]"
      by (simp add: run_startChat_failed [OF unlinked Some] intake_def catch_block_def
          strict_sequence_def)
    then have "\<exists>k\<ge>4. operations (post_upload w rq) = take k strict_sequence @ [RespondOp]"
      by (intro exI [of _ 5]) simp
    then show ?thesis
      using None Some
      by (simp add: run_startChat_failed [OF unlinked Some] intake_def catch_block_def
          disk_after_def)
  next
    case None
    note started = unlinked None
    show ?thesis
    proof (cases "sendMessage_result w")
      case (Inl e)
      have ops: "operations (post_upload w rq) = take 6 strict_sequence @ [RespondOp]"
        by (simp add: run_send_failed [OF started Inl] intake_def catch_block_def
            strict_sequence_def)
      then have "\<exists>k\<ge>4. operations (post_upload w rq) = take k strict_sequence @ [RespondOp]"
        by (intro exI [of _ 6]) simp
      then show ?thesis
        using started(5,6)
        by (simp add: run_send_failed [OF started Inl] intake_def catch_block_def
            disk_after_def)
    next
      case (Inr reply)
      have ops: "operations (post_upload w rq) = take 6 strict_sequence @ [RespondOp]"
        by (simp add: run_classified [OF started Inr] intake_def answer_def
            strict_sequence_def)
      then have "\<exists>k\<ge>4. operations (post_upload w rq) = take k strict_sequence @ [RespondOp]"
        by (intro exI [of _ 6]) simp
      then show ?thesis
        using started(5,6)
        by (simp add: run_classified [OF started Inr] intake_def answer_def
            disk_after_def)
    qed
  qed
qed

theorem temp_file_deleted_before_chat_witness:
  "uploadFile_result moon_world = Inr moon_handle
   \<and> unlink_calls (post_upload moon_world moon_request) = [(''/tmp/5f3a9c'', None)]
   \<and> ''/tmp/5f3a9c'' \<notin> disk_after {} (post_upload moon_world moon_request)
   \<and> operations (post_upload moon_world moon_request) =
       [Validate, StageTemp, RemoteUpload, DeleteTemp, StartSession, SendPrompt, RespondOp]
   \<and> ''/tmp/5f3a9c'' \<in> disk_after {} (post_upload stuck_world moon_request)
   \<and> operations (post_upload stuck_world moon_request) =
       [Validate, StageTemp, RemoteUpload, DeleteTemp, RespondOp]"
proof -
  have more: "staged_path moon_world = ''/tmp/5f3a9c''"
    by (simp add: moon_world_def)
  have moon: "unlink_calls (post_upload moon_world moon_request) = [(''/tmp/5f3a9c'', None)]
     \<and> ''/tmp/5f3a9c'' \<notin> disk_after {} (post_upload moon_world moon_request)
     \<and> operations (post_upload moon_world moon_request) =
       [Validate, StageTemp, RemoteUpload, DeleteTemp, StartSession, SendPrompt, RespondOp]"
    using temp_file_deleted_before_chat [OF moon_passes moon_run(1), of "{}"] moon_run more
    by simp
  have stuck: "''/tmp/5f3a9c'' \<in> disk_after {} (post_upload stuck_world moon_request)
     \<and> operations (post_upload stuck_world moon_request) =
       [Validate, StageTemp, RemoteUpload, DeleteTemp, RespondOp]"
    using temp_file_deleted_before_chat [OF moon_passes stuck_run(1), of "{}"] stuck_run
    by simp
  from moon stuck moon_run(1) show ?thesis by simp
qed


subsection \<open>The chat session\<close>

lemma sessions_append: "sessions (xs @ ys) = sessions xs @ sessions ys"
  by (induction xs rule: sessions.induct) simp_all

lemma sessions_remove_uploaded: "sessions (remove_uploaded cur) = []"
  by (cases cur) simp_all

lemma sessions_make_middleware: "sessions (fst (make_middleware w left cur ps)) = []"
  by (induction w left cur ps rule: make_middleware.induct)
    (auto simp: sessions_remove_uploaded split: option.splits prod.splits)

lemma sessions_classify:
  "classify w h = (evs, r) \<Longrightarrow> (c, hist) \<in> set (sessions evs) \<Longrightarrow> c = generationConfig"
  by (auto simp: classify_def answer_def split: option.splits sum.splits)

lemma sessions_try_block:
  "try_block w fl = (evs, r) \<Longrightarrow> (c, hist) \<in> set (sessions evs) \<Longrightarrow> c = generationConfig"
  by (auto simp: try_block_def uploadToGemini_def sessions_append
      split: option.splits sum.splits prod.splits dest: sessions_classify)

lemma sessions_route_handler:
  "(c, hist) \<in> set (sessions (route_handler w fl)) \<Longrightarrow> c = generationConfig"
  by (auto simp: route_handler_def catch_block_def sessions_append
      split: option.splits prod.splits dest: sessions_try_block)

lemma sessions_post_upload:
  "(c, hist) \<in> set (sessions (post_upload w rq)) \<Longrightarrow> c = generationConfig"
  using sessions_make_middleware [of w 1 None "files rq"]
  by (auto simp: post_upload_def upload_single_def sessions_append
      split: sum.splits prod.splits dest: sessions_route_handler)

text \<open>
  Claim C6. The generation configuration is one constant of the program, the same for
  every request and every outside world, and every chat session that any POST /upload
  request creates is given exactly it: temperature 1, topP 0.95, topK 40,
  maxOutputTokens 8192, responseMimeType \<open>text/plain\<close>.
\<close>

theorem generation_config_fixed:
  "(\<forall>c \<in> set (map fst (sessions (post_upload w rq))).
      c = generationConfig
      \<and> temperature c = 1 \<and> topP c = 0.95 \<and> topK c = 40 \<and> maxOutputTokens c = 8192
      \<and> responseMimeType c = ''text/plain'')"
proof
  fix c
  assume "c \<in> set (map fst (sessions (post_upload w rq)))"
  then have "c = generationConfig"
    by (auto dest: sessions_post_upload)
  then show "c = generationConfig
      \<and> temperature c = 1 \<and> topP c = 0.95 \<and> topK c = 40 \<and> maxOutputTokens c = 8192
      \<and> responseMimeType c = ''text/plain''"
    by (simp add: generationConfig_def)
qed

theorem generation_config_fixed_witness:
  "map fst (sessions (post_upload moon_world moon_request)) = [generationConfig]
   \<and> (\<exists>c \<in> set (map fst (sessions (post_upload moon_world moon_request))).
        temperature c = 1 \<and> topP c = 0.95 \<and> topK c = 40 \<and> maxOutputTokens c = 8192
        \<and> responseMimeType c = ''text/plain'')"
proof -
  have one: "map fst (sessions (post_upload moon_world moon_request)) = [generationConfig]"
    by (simp add: run_classified [OF moon_passes moon_run] intake_def answer_def)
  then show ?thesis
    using generation_config_fixed [of moon_world moon_request] by simp
qed

text \<open>
  Claim C7. When a POST /upload request gets as far as the chat session, the session is
  created with a history of exactly one message, of role \<open>user\<close>, whose content is the
  single file reference with the MIME type and the URI of the remote file handle, and
  exactly one message is sent to it, the fixed prompt.
\<close>

theorem chat_history_and_prompt:
  assumes "image_file rq = Some f" and "fileFilter f = None" and "\<not> exceeds_limit f"
    and "uploadFile_result w = Inr h" and "unlink_result w = None"
    and "startChat_result w = None"
  shows "sessions (post_upload w rq) =
           [(generationConfig,
             [\<lparr>role = ''user'', parts = [FileData (mimeType h) (uri h)]\<rparr>])]
         \<and> messages (post_upload w rq) =
             [''Is this image of the moon? Give answer in yes or no only'']"
proof (cases "sendMessage_result w")
  case (Inl e)
  show ?thesis
    by (simp add: run_send_failed [OF assms Inl] intake_def catch_block_def prompt_def)
next
  case (Inr reply)
  show ?thesis
    by (simp add: run_classified [OF assms Inr] intake_def answer_def prompt_def)
qed

theorem chat_history_and_prompt_witness:
  "sessions (post_upload moon_world moon_request) =
     [(generationConfig,
       [\<lparr>role = ''user'',
         parts = [FileData ''image/png'' ''https://files.example/k2x'']\<rparr>])]
   \<and> messages (post_upload moon_world moon_request) =
       [''Is this image of the moon? Give answer in yes or no only'']"
  using chat_history_and_prompt [OF moon_passes moon_run(1,2,3)]
  by (simp add: moon_handle_def)

subsection \<open>The size limit\<close>




subsection \<open>The port\<close>

lemma decimal_3000: "decimal 3000 = ''3000''"
  by code_simp

lemma read_8080: "list_all digit ''8080''" "read_decimal ''8080'' = 8080"
  by code_simp+

text \<open>
  Claim C9. With PORT unset (or empty) the server listens on 3000; with PORT provided,
  its value is what is handed to \<open>listen\<close>, and a decimal numeral below 65536 stands
  for the port of that number, so \<open>8080\<close> listens on 8080. Once the server is bound,
  the line \<open>Server running on port\<close> followed by the value is logged.
\<close>

theorem listening_port:
  "listen None bound =
     (Num 3000, if bound then [ConsoleLog ''Server running on port 3000''] else [])
   \<and> listen (Some []) bound = listen None bound
   \<and> port_number (fst (listen None bound)) = Some 3000
   \<and> (s \<noteq> [] \<longrightarrow>
        listen (Some s) bound =
          (Str s, if bound then [ConsoleLog (''Server running on port '' @ s)] else []))
   \<and> (s \<noteq> [] \<longrightarrow> list_all digit s \<longrightarrow> read_decimal s < 65536 \<longrightarrow>
        port_number (fst (listen (Some s) bound)) = Some (read_decimal s))"
  using decimal_3000
  by (simp add: listen_def PORT_def port_number_def del: decimal.simps)

theorem listening_port_witness:
  "listen (Some ''8080'') True = (Str ''8080'', [ConsoleLog ''Server running on port 8080''])
   \<and> port_number (fst (listen (Some ''8080'') True)) = Some 8080
   \<and> listen None True = (Num 3000, [ConsoleLog ''Server running on port 3000''])
   \<and> port_number (fst (listen None True)) = Some 3000"
  using listening_port [of True "''8080''"] read_8080 by auto

end
